theory Spec2Isabelle
  imports Main "HOL-Library.Word" "HOL-Library.AList"
begin

section \<open>Values exchanged with the storage provider and the raster library\<close>

text \<open>
  The service (\<^verbatim>\<open>src/s3/s3.service.ts\<close>) and the controller
  (\<^verbatim>\<open>src/s3/s3.controller.ts\<close>) are glue over two libraries: the object-storage
  client and the raster decoder. Both libraries are parameters of the model: every
  theorem holds for every behaviour of the storage client and of the decoder.

  A JavaScript exception is a value of \<open>error\<close>. The constructor tells where the
  exception was created: \<open>StorageError\<close> by the storage client (a rejected
  \<^verbatim>\<open>send\<close>, or the \<^verbatim>\<open>error\<close> event of a body stream), \<open>DecodeError\<close> by the raster
  library, \<open>TypeError\<close> by the HTTP library when it refuses a header, \<open>Error\<close> by a
  \<^verbatim>\<open>new Error(...)\<close> of the service itself.

  A string is the list of the bytes of its UTF-8 form: the characters of ASCII are one
  byte each, and no byte of a longer character is an ASCII byte, so that replacing,
  splitting at and appending ASCII characters work on the bytes as they do on the
  characters.
\<close>

datatype error =
    StorageError (message: string)
  | DecodeError (message: string)
  | TypeError (message: string)
  | Error (message: string)

type_synonym byte = "8 word"
type_synonym Buffer = "byte list"

text \<open>
  A readable stream: the chunks of its \<^verbatim>\<open>data\<close> events, then either \<^verbatim>\<open>end\<close>
  (\<open>None\<close>) or \<^verbatim>\<open>error\<close> (\<open>Some e\<close>).
\<close>

datatype Readable = Readable (chunks: "Buffer list") (failure: "error option")

datatype json =
    JNull
  | JBool bool
  | JNum int
  | JStr string
  | JArr "json list"
  | JObj "(string \<times> json) list"

fun field :: "json \<Rightarrow> string \<Rightarrow> json option" where
  "field (JObj fs) k = map_of fs k"
| "field _ k = None"

record RequestBase =
  Bucket :: string
  RequestPayer :: "string option"

record ListObjectsV2Input = RequestBase +
  Prefix :: "string option"
  ContinuationToken :: "string option"

record GetObjectInput = RequestBase +
  Key :: string

record ListObjectsV2Output =
  Contents :: "json list option"
  IsTruncated :: "bool option"
  NextContinuationToken :: "string option"

record GetObjectOutput =
  Body :: Readable

datatype command =
    ListBucketsCommand
  | ListObjectsV2Command ListObjectsV2Input
  | GetObjectCommand GetObjectInput

text \<open>
  The storage client: what \<^verbatim>\<open>s3Client.send\<close> answers to each kind of command,
  \<open>Inl\<close> when the promise is rejected.
\<close>

record S3Client =
  ListBuckets :: "error + unit"
  ListObjectsV2 :: "ListObjectsV2Input \<Rightarrow> error + ListObjectsV2Output"
  GetObject :: "GetObjectInput \<Rightarrow> error + GetObjectOutput"

text \<open>
  The raster library. \<^verbatim>\<open>GeoTIFF.fromArrayBuffer\<close> parses a buffer into a container of
  images; \<^verbatim>\<open>getImage()\<close> without an argument takes the image at index 0 and fails when
  there is none; \<^verbatim>\<open>readRasters()\<close> gives the bands of an image, one array of samples
  for each band, or fails.
\<close>

type_synonym ReadRasterResult = "int list list"

record GeoTIFFImage =
  readRasters :: "error + ReadRasterResult"
  getWidth :: nat
  getHeight :: nat

type_synonym GeoTIFF = "GeoTIFFImage list"
type_synonym GeoTIFFLib = "Buffer \<Rightarrow> error + GeoTIFF"

fun getImage :: "GeoTIFF \<Rightarrow> error + GeoTIFFImage" where
  "getImage [] = Inl (DecodeError ''No image at index 0'')"
| "getImage (img # rest) = Inr img"

record GeoTIFFData =
  rasterData :: ReadRasterResult
  width :: nat
  height :: nat

section \<open>Effects\<close>

text \<open>
  What a request handler does to the outside is recorded in a \<open>world\<close>: the commands
  sent to the storage provider, the buffers handed to the raster library, and the lines
  written to the log, each in order.
\<close>

datatype level = LOG | ERROR

datatype log_arg =
    ErrorArg error
  | BufferArg Buffer
  | RasterArg ReadRasterResult
  | DataArg GeoTIFFData

datatype log_entry = LogEntry level string "log_arg option"

record world =
  requests :: "command list"
  decoded :: "Buffer list"
  logs :: "log_entry list"

definition log_line :: "level \<Rightarrow> string \<Rightarrow> log_arg option \<Rightarrow> world \<Rightarrow> world" where
  "log_line l msg arg w = w\<lparr>logs := logs w @ [LogEntry l msg arg]\<rparr>"

definition send_ListBuckets :: "S3Client \<Rightarrow> world \<Rightarrow> (error + unit) \<times> world" where
  "send_ListBuckets client w =
     (ListBuckets client, w\<lparr>requests := requests w @ [ListBucketsCommand]\<rparr>)"

definition send_ListObjectsV2 ::
  "S3Client \<Rightarrow> ListObjectsV2Input \<Rightarrow> world \<Rightarrow> (error + ListObjectsV2Output) \<times> world" where
  "send_ListObjectsV2 client input w =
     (ListObjectsV2 client input, w\<lparr>requests := requests w @ [ListObjectsV2Command input]\<rparr>)"

definition send_GetObject ::
  "S3Client \<Rightarrow> GetObjectInput \<Rightarrow> world \<Rightarrow> (error + GetObjectOutput) \<times> world" where
  "send_GetObject client input w =
     (GetObject client input, w\<lparr>requests := requests w @ [GetObjectCommand input]\<rparr>)"

definition fromArrayBuffer :: "GeoTIFFLib \<Rightarrow> Buffer \<Rightarrow> world \<Rightarrow> (error + GeoTIFF) \<times> world" where
  "fromArrayBuffer lib arrayBuffer w = (lib arrayBuffer, w\<lparr>decoded := decoded w @ [arrayBuffer]\<rparr>)"

section \<open>The service\<close>

definition bucketName :: string where
  "bucketName = ''usgs-landsat''"

definition verifyAWSAuthentication :: "S3Client \<Rightarrow> world \<Rightarrow> (error + bool) \<times> world" where
  "verifyAWSAuthentication client w =
     (case send_ListBuckets client w of
        (Inr _, w1) \<Rightarrow>
          (Inr True, log_line LOG ''Successfully authenticated with AWS.'' None w1)
      | (Inl e, w1) \<Rightarrow>
          (Inr False, log_line ERROR ''Failed to authenticate with AWS:'' (Some (ErrorArg e)) w1))"

text \<open>
  A parameter with a default value takes the default when the caller passes
  \<^verbatim>\<open>undefined\<close>, here \<open>None\<close>.
\<close>

definition S3Service_listObjects ::
  "S3Client \<Rightarrow> string option \<Rightarrow> string option \<Rightarrow> world
     \<Rightarrow> (error + ListObjectsV2Output) \<times> world" where
  "S3Service_listObjects client prefix continuationToken w =
     (let prefix' = (case prefix of None \<Rightarrow> ''collection02/'' | Some p \<Rightarrow> p);
          command = \<lparr>Bucket = bucketName, RequestPayer = Some ''requester'',
                     Prefix = Some prefix', ContinuationToken = continuationToken\<rparr>
      in case send_ListObjectsV2 client command w of
           (Inr response, w1) \<Rightarrow> (Inr response, w1)
         | (Inl e, w1) \<Rightarrow>
             (Inl e, log_line ERROR ''Error listing objects from S3'' (Some (ErrorArg e)) w1))"

fun streamToBuffer :: "Readable \<Rightarrow> error + Buffer" where
  "streamToBuffer (Readable cs None) = Inr (concat cs)"
| "streamToBuffer (Readable cs (Some e)) = Inl e"

definition S3Service_getObject ::
  "S3Client \<Rightarrow> string \<Rightarrow> world \<Rightarrow> (error + Buffer) \<times> world" where
  "S3Service_getObject client key w =
     (let command = \<lparr>Bucket = bucketName, RequestPayer = Some ''requester'', Key = key\<rparr>;
          caught = (\<lambda>e w'. (Inl e,
            log_line ERROR (''Error getting object '' @ key @ '' from S3'') (Some (ErrorArg e)) w'))
      in case send_GetObject client command w of
           (Inl e, w1) \<Rightarrow> caught e w1
         | (Inr response, w1) \<Rightarrow>
             (case streamToBuffer (Body response) of
                Inl e \<Rightarrow> caught e w1
              | Inr buffer \<Rightarrow> (Inr buffer, w1)))"

text \<open>
  \<^verbatim>\<open>buffer.buffer.slice(byteOffset, byteOffset + byteLength)\<close> copies exactly the bytes
  of the buffer into a fresh array buffer.
\<close>

definition toArrayBuffer :: "Buffer \<Rightarrow> Buffer" where
  "toArrayBuffer buffer = take (length buffer) (drop 0 buffer)"

definition S3Service_getGeoTIFF ::
  "S3Client \<Rightarrow> GeoTIFFLib \<Rightarrow> string \<Rightarrow> world \<Rightarrow> (error + GeoTIFFData) \<times> world" where
  "S3Service_getGeoTIFF client lib key w =
     (let caught = (\<lambda>e w'. (Inl (Error ''Could not retrieve GeoTIFF data''),
            log_line ERROR ''Error in getGeoTIFF:'' (Some (ErrorArg e)) w'));
          w0 = log_line LOG (''Fetching GeoTIFF from S3 with key: '' @ key) None w
      in case S3Service_getObject client key w0 of
           (Inl e, w1) \<Rightarrow> caught e w1
         | (Inr buffer, w1) \<Rightarrow>
             (let w2 = log_line LOG ''Retrieved Buffer:'' (Some (BufferArg buffer)) w1;
                  arrayBuffer = toArrayBuffer buffer
              in case fromArrayBuffer lib arrayBuffer w2 of
                   (Inl e, w3) \<Rightarrow> caught e w3
                 | (Inr geoTiff, w3) \<Rightarrow>
                     (case getImage geoTiff of
                        Inl e \<Rightarrow> caught e w3
                      | Inr img \<Rightarrow>
                          (case readRasters img of
                             Inl e \<Rightarrow> caught e w3
                           | Inr rasters \<Rightarrow>
                               (Inr \<lparr>rasterData = rasters, width = getWidth img,
                                     height = getHeight img\<rparr>,
                                log_line LOG ''Raster data:'' (Some (RasterArg rasters)) w3)))))"

definition S3Service_getGeoTIFFStream ::
  "S3Client \<Rightarrow> string \<Rightarrow> world \<Rightarrow> (error + Readable) \<times> world" where
  "S3Service_getGeoTIFFStream client key w =
     (let w0 = log_line LOG (''Fetching GeoTIFF stream from S3 with key: '' @ key) None w;
          command = \<lparr>Bucket = bucketName, RequestPayer = Some ''requester'', Key = key\<rparr>
      in case send_GetObject client command w0 of
           (Inr response, w1) \<Rightarrow> (Inr (Body response), w1)
         | (Inl e, w1) \<Rightarrow>
             (Inl (Error ''Could not retrieve GeoTIFF stream''),
              log_line ERROR (''Error getting GeoTIFF stream for key: '' @ key)
                (Some (ErrorArg e)) w1))"

section \<open>Strings\<close>

definition backslash :: char where
  "backslash = CHR 0x5C"

definition dquote :: string where
  "dquote = [CHR 0x22]"

text \<open>
  \<^verbatim>\<open>s.replace(/p/g, r)\<close> for a pattern \<open>p\<close> of one character: every occurrence of
  \<open>p\<close>, from left to right, becomes \<open>r\<close>.
\<close>

fun replace_all :: "char \<Rightarrow> string \<Rightarrow> string \<Rightarrow> string" where
  "replace_all p r [] = []"
| "replace_all p r (c # cs) =
     (if c = p then r @ replace_all p r cs else c # replace_all p r cs)"

definition sanitizedKey :: "string \<Rightarrow> string" where
  "sanitizedKey key = replace_all backslash ''/'' key"

text \<open>
  \<^verbatim>\<open>s.split(sep)\<close> for a separator of one character (the empty string splits into one
  empty piece), \<^verbatim>\<open>pop()\<close>, and a value inside a template literal.
\<close>

fun split :: "char \<Rightarrow> string \<Rightarrow> string list" where
  "split sep [] = [[]]"
| "split sep (c # cs) =
     (if c = sep then [] # split sep cs
      else (case split sep cs of
              [] \<Rightarrow> [[c]]
            | piece # pieces \<Rightarrow> (c # piece) # pieces))"

definition pop :: "'a list \<Rightarrow> 'a option" where
  "pop xs = (if xs = [] then None else Some (last xs))"

definition template :: "string option \<Rightarrow> string" where
  "template v = (case v of None \<Rightarrow> ''undefined'' | Some s \<Rightarrow> s)"

definition content_disposition :: "string \<Rightarrow> string \<Rightarrow> string" where
  "content_disposition kind sanitized =
     kind @ ''; filename='' @ dquote @ template (pop (split CHR ''/'' sanitized)) @ dquote"

fun decimal :: "nat \<Rightarrow> string" where
  "decimal n =
     (if n < 10 then [''0123456789'' ! n]
      else decimal (n div 10) @ [''0123456789'' ! (n mod 10)])"

section \<open>The HTTP response\<close>

text \<open>
  The response object of the web framework, as far as the controller drives it: the
  status (200 until set), the headers that the controller sets, and what is written as
  the body. Headers that the framework adds on its own are left out.

  Setting a header throws when its value has a character that a header may not carry:
  every character but the tab, U+0020 to U+007E and U+0080 to U+00FF. In UTF-8 these
  are the strings with a control byte other than the tab, with the byte 0x7F, or with a
  byte from 0xC4 on, which starts a character above U+00FF. \<^verbatim>\<open>res.set\<close> of several
  headers sets them in order, so the headers before the refused one stay set. The body
  of a fulfilled request is a stream, as the cast in the source says, and piping a
  stream into the response does not throw.
\<close>

datatype payload =
    NoBody
  | BufferBody Buffer
  | JsonBody json
  | StreamBody Readable

record Response =
  status :: nat
  headers :: "(string \<times> string) list"
  body :: payload

definition new_response :: Response where
  "new_response = \<lparr>status = 200, headers = [], body = NoBody\<rparr>"

definition OK :: nat where "OK = 200"
definition NOT_FOUND :: nat where "NOT_FOUND = 404"
definition INTERNAL_SERVER_ERROR :: nat where "INTERNAL_SERVER_ERROR = 500"

definition valid_header_char :: "char \<Rightarrow> bool" where
  "valid_header_char c =
     (let n = (of_char c :: nat)
      in (n = 0x09 \<or> 0x20 \<le> n) \<and> n \<noteq> 0x7F \<and> n < 0xC4)"

definition valid_header_value :: "string \<Rightarrow> bool" where
  "valid_header_value v = list_all valid_header_char v"

fun res_set :: "(string \<times> string) list \<Rightarrow> Response \<Rightarrow> (error + unit) \<times> Response" where
  "res_set [] res = (Inr (), res)"
| "res_set ((k, v) # hs) res =
     (if valid_header_value v
      then res_set hs (res\<lparr>headers := AList.update k v (headers res)\<rparr>)
      else (Inl (TypeError (''Invalid character in header content ['' @ dquote @ k @ dquote @ '']'')),
            res))"

definition res_status :: "nat \<Rightarrow> Response \<Rightarrow> Response" where
  "res_status code res = res\<lparr>status := code\<rparr>"

definition res_send :: "Buffer \<Rightarrow> Response \<Rightarrow> Response" where
  "res_send buffer res = res\<lparr>body := BufferBody buffer\<rparr>"

definition res_json :: "json \<Rightarrow> Response \<Rightarrow> Response" where
  "res_json v res = res\<lparr>body := JsonBody v\<rparr>"

definition pipe :: "Readable \<Rightarrow> Response \<Rightarrow> Response" where
  "pipe stream res = res\<lparr>body := StreamBody stream\<rparr>"

section \<open>JSON bodies\<close>

text \<open>
  \<^verbatim>\<open>JSON.stringify\<close> leaves out a property whose value is \<^verbatim>\<open>undefined\<close>, writes an
  array as an array, and writes a typed array as an object whose keys are the indices.
\<close>

definition property :: "string \<Rightarrow> ('a \<Rightarrow> json) \<Rightarrow> 'a option \<Rightarrow> (string \<times> json) list" where
  "property k to_json v = (case v of None \<Rightarrow> [] | Some x \<Rightarrow> [(k, to_json x)])"

definition typed_array_json :: "int list \<Rightarrow> json" where
  "typed_array_json samples =
     JObj (zip (map decimal [0 ..< length samples]) (map JNum samples))"

definition raster_json :: "ReadRasterResult \<Rightarrow> json" where
  "raster_json bands = JArr (map typed_array_json bands)"

record VerifyResult =
  authenticated :: bool

record ListResult =
  contents :: "json list option"
  isTruncated :: "bool option"
  nextContinuationToken :: "string option"

definition VerifyResult_json :: "VerifyResult \<Rightarrow> json" where
  "VerifyResult_json r = JObj [(''authenticated'', JBool (authenticated r))]"

definition ListResult_json :: "ListResult \<Rightarrow> json" where
  "ListResult_json r =
     JObj (property ''contents'' JArr (contents r)
         @ property ''isTruncated'' JBool (isTruncated r)
         @ property ''nextContinuationToken'' JStr (nextContinuationToken r))"

definition GeoTIFFData_json :: "GeoTIFFData \<Rightarrow> json" where
  "GeoTIFFData_json d =
     JObj [(''rasterData'', raster_json (rasterData d)),
           (''width'', JNum (int (width d))),
           (''height'', JNum (int (height d)))]"

section \<open>The controller\<close>

definition S3Controller_verifyAWS :: "S3Client \<Rightarrow> world \<Rightarrow> (error + VerifyResult) \<times> world" where
  "S3Controller_verifyAWS client w =
     (case verifyAWSAuthentication client w of
        (Inl e, w1) \<Rightarrow> (Inl e, w1)
      | (Inr isAuthenticated, w1) \<Rightarrow> (Inr \<lparr>authenticated = isAuthenticated\<rparr>, w1))"

definition S3Controller_listObjects ::
  "S3Client \<Rightarrow> string option \<Rightarrow> string option \<Rightarrow> world \<Rightarrow> (error + ListResult) \<times> world" where
  "S3Controller_listObjects client prefix continuationToken w =
     (let prefix' = (case prefix of None \<Rightarrow> ''collection02/'' | Some p \<Rightarrow> p)
      in case S3Service_listObjects client (Some prefix') continuationToken w of
           (Inl e, w1) \<Rightarrow> (Inl e, w1)
         | (Inr response, w1) \<Rightarrow>
             (Inr \<lparr>contents = Contents response,
                   isTruncated = IsTruncated response,
                   nextContinuationToken = NextContinuationToken response\<rparr>, w1))"

text \<open>
  A handler that takes the response object changes it as it goes. The body of its
  \<^verbatim>\<open>try\<close> gives the exception, if one is thrown, together with the response and the world
  as they are at that point; the handler goes on from there in its \<^verbatim>\<open>catch\<close>.
\<close>

definition getObject_try ::
  "S3Client \<Rightarrow> string \<Rightarrow> Response \<Rightarrow> world \<Rightarrow> (error + unit) \<times> Response \<times> world" where
  "getObject_try client sanitized res w =
     (case S3Service_getObject client sanitized w of
        (Inl e, w1) \<Rightarrow> (Inl e, res, w1)
      | (Inr buffer, w1) \<Rightarrow>
          (case res_set [(''Content-Type'', ''application/octet-stream''),
                         (''Content-Disposition'', content_disposition ''attachment'' sanitized)]
                  res of
             (Inl e, res1) \<Rightarrow> (Inl e, res1, w1)
           | (Inr _, res1) \<Rightarrow> (Inr (), res_send buffer (res_status OK res1), w1)))"

definition S3Controller_getObject ::
  "S3Client \<Rightarrow> string \<Rightarrow> Response \<Rightarrow> world \<Rightarrow> Response \<times> world" where
  "S3Controller_getObject client key res w =
     (let sanitized = sanitizedKey key
      in case getObject_try client sanitized res w of
           (Inr _, res1, w1) \<Rightarrow> (res1, w1)
         | (Inl e, res1, w1) \<Rightarrow>
             (res_json (JObj [(''message'', JStr ''Error retrieving the object''),
                              (''error'', JStr (message e))])
                (res_status INTERNAL_SERVER_ERROR res1), w1))"

definition not_found_json :: "string \<Rightarrow> json" where
  "not_found_json key =
     JObj [(''message'', JStr (''Cannot GET /s3/get-geotiff/'' @ key)),
           (''error'', JStr ''Not Found''),
           (''statusCode'', JNum (int NOT_FOUND))]"

definition getGeoTIFFStream_try ::
  "S3Client \<Rightarrow> string \<Rightarrow> Response \<Rightarrow> world \<Rightarrow> (error + unit) \<times> Response \<times> world" where
  "getGeoTIFFStream_try client key res w =
     (let sanitized = sanitizedKey key
      in case S3Service_getGeoTIFFStream client sanitized w of
           (Inl e, w1) \<Rightarrow> (Inl e, res, w1)
         | (Inr stream, w1) \<Rightarrow>
             (case res_set [(''Content-Type'', ''image/tiff''),
                            (''Content-Disposition'', content_disposition ''inline'' sanitized)]
                     res of
                (Inl e, res1) \<Rightarrow> (Inl e, res1, w1)
              | (Inr _, res1) \<Rightarrow> (Inr (), pipe stream res1, w1)))"

definition S3Controller_getGeoTIFFStream ::
  "S3Client \<Rightarrow> string \<Rightarrow> Response \<Rightarrow> world \<Rightarrow> Response \<times> world" where
  "S3Controller_getGeoTIFFStream client key res w =
     (case getGeoTIFFStream_try client key res w of
        (Inr _, res1, w1) \<Rightarrow> (res1, w1)
      | (Inl e, res1, w1) \<Rightarrow>
          (res_json (not_found_json key) (res_status NOT_FOUND res1),
           log_line ERROR (''Error fetching GeoTIFF for key: '' @ key)
             (Some (ErrorArg e)) w1))"

definition S3Controller_getGeoTIFF ::
  "S3Client \<Rightarrow> GeoTIFFLib \<Rightarrow> string \<Rightarrow> Response \<Rightarrow> world \<Rightarrow> Response \<times> world" where
  "S3Controller_getGeoTIFF client lib key res w =
     (let sanitized = sanitizedKey key
      in case S3Service_getGeoTIFF client lib sanitized w of
           (Inr d, w1) \<Rightarrow>
             (res_json (GeoTIFFData_json d) (res_status OK res),
              log_line LOG ''GeoTIFF Data:'' (Some (DataArg d)) w1)
         | (Inl e, w1) \<Rightarrow>
             (res_json (not_found_json key) (res_status NOT_FOUND res),
              log_line ERROR (''Error fetching GeoTIFF for key: '' @ key)
                (Some (ErrorArg e)) w1))"

section \<open>The routes\<close>

text \<open>
  A handler that returns a value leaves the reply to the web framework, which is not
  part of the repository: the value is written as JSON with status 200, and an exception
  that escapes the handler becomes the framework's own status 500 reply. A handler that
  takes the response object writes the reply itself, starting from a fresh response.
\<close>

definition framework_reply :: "('a \<Rightarrow> json) \<Rightarrow> error + 'a \<Rightarrow> Response" where
  "framework_reply to_json r =
     (case r of
        Inr v \<Rightarrow> \<lparr>status = 200, headers = [], body = JsonBody (to_json v)\<rparr>
      | Inl e \<Rightarrow> \<lparr>status = 500, headers = [],
                  body = JsonBody (JObj [(''statusCode'', JNum 500),
                                         (''message'', JStr ''Internal server error'')])\<rparr>)"

definition GET_verify :: "S3Client \<Rightarrow> world \<Rightarrow> Response \<times> world" where
  "GET_verify client w =
     (case S3Controller_verifyAWS client w of
        (r, w1) \<Rightarrow> (framework_reply VerifyResult_json r, w1))"

definition GET_list ::
  "S3Client \<Rightarrow> string option \<Rightarrow> string option \<Rightarrow> world \<Rightarrow> Response \<times> world" where
  "GET_list client prefix continuationToken w =
     (case S3Controller_listObjects client prefix continuationToken w of
        (r, w1) \<Rightarrow> (framework_reply ListResult_json r, w1))"

definition GET_object :: "S3Client \<Rightarrow> string \<Rightarrow> world \<Rightarrow> Response \<times> world" where
  "GET_object client key w = S3Controller_getObject client key new_response w"

definition GET_get_geotiff_stream :: "S3Client \<Rightarrow> string \<Rightarrow> world \<Rightarrow> Response \<times> world" where
  "GET_get_geotiff_stream client key w = S3Controller_getGeoTIFFStream client key new_response w"

definition GET_get_geotiff ::
  "S3Client \<Rightarrow> GeoTIFFLib \<Rightarrow> string \<Rightarrow> world \<Rightarrow> Response \<times> world" where
  "GET_get_geotiff client lib key w = S3Controller_getGeoTIFF client lib key new_response w"

section \<open>Notions used by the properties\<close>

text \<open>The commands sent between two worlds, the later one reached from the earlier.\<close>

definition issued :: "world \<Rightarrow> world \<Rightarrow> command list" where
  "issued w w' = drop (length (requests w)) (requests w')"

text \<open>A command carries the requester-pays indicator.\<close>

fun requester_pays :: "command \<Rightarrow> bool" where
  "requester_pays ListBucketsCommand = False"
| "requester_pays (ListObjectsV2Command input) = (RequestPayer input = Some ''requester'')"
| "requester_pays (GetObjectCommand input) = (RequestPayer input = Some ''requester'')"

text \<open>
  The error with which the provider fails the retrieval of a key, if it does: the
  rejection of the request, or else the error that ends the body stream.
\<close>

definition provider_failure :: "S3Client \<Rightarrow> string \<Rightarrow> error option" where
  "provider_failure client key =
     (case GetObject client \<lparr>Bucket = bucketName, RequestPayer = Some ''requester'', Key = key\<rparr> of
        Inl e \<Rightarrow> Some e
      | Inr response \<Rightarrow> failure (Body response))"

text \<open>
  The relation between the truncation flag and the continuation token of a listing:
  no token when the flag is false, a token when it is true. It is the relation that the
  listing interface of the storage provider keeps in its answers.
\<close>

definition token_iff_truncated :: "bool option \<Rightarrow> string option \<Rightarrow> bool" where
  "token_iff_truncated truncated token =
     ((truncated = Some False \<longrightarrow> token = None) \<and> (truncated = Some True \<longrightarrow> token \<noteq> None))"

section \<open>Concrete providers and decoders\<close>

definition quiet :: world where
  "quiet = \<lparr>requests = [], decoded = [], logs = []\<rparr>"

definition tif_bytes :: Buffer where
  "tif_bytes = [0x49, 0x49, 0x2A, 0x00]"

text \<open>A provider without credentials for which every request is rejected.\<close>

definition denying_client :: S3Client where
  "denying_client =
     \<lparr>ListBuckets = Inl (StorageError ''The AWS Access Key Id you provided does not exist in our records.''),
      ListObjectsV2 = (\<lambda>input. Inl (StorageError ''Access Denied'')),
      GetObject = (\<lambda>input. Inl (StorageError ''The specified key does not exist.''))\<rparr>"

text \<open>
  A provider that holds one object, \<^verbatim>\<open>collection02/a.tif\<close>, delivered in two chunks,
  and lists it on a single page.
\<close>

definition serving_client :: S3Client where
  "serving_client =
     \<lparr>ListBuckets = Inr (),
      ListObjectsV2 = (\<lambda>input.
        Inr \<lparr>Contents = Some [JObj [(''Key'', JStr ''collection02/a.tif''), (''Size'', JNum 4)]],
             IsTruncated = Some False,
             NextContinuationToken = None\<rparr>),
      GetObject = (\<lambda>input.
        if Key input = ''collection02/a.tif''
        then Inr \<lparr>Body = Readable [take 2 tif_bytes, drop 2 tif_bytes] None\<rparr>
        else Inl (StorageError ''The specified key does not exist.''))\<rparr>"

text \<open>A provider whose body streams break off after the first chunk.\<close>

definition breaking_client :: S3Client where
  "breaking_client =
     \<lparr>ListBuckets = Inr (),
      ListObjectsV2 = (\<lambda>input. Inl (StorageError ''Access Denied'')),
      GetObject = (\<lambda>input.
        Inr \<lparr>Body = Readable [take 2 tif_bytes] (Some (StorageError ''aborted''))\<rparr>)\<rparr>"

text \<open>
  A provider that lists two keys on two pages: the first page is truncated and names the
  token for the second, the second is the last.
\<close>

definition paging_client :: S3Client where
  "paging_client =
     \<lparr>ListBuckets = Inr (),
      ListObjectsV2 = (\<lambda>input.
        if ContinuationToken input = None
        then Inr \<lparr>Contents = Some [JObj [(''Key'', JStr ''collection02/a.tif''), (''Size'', JNum 4)]],
                  IsTruncated = Some True,
                  NextContinuationToken = Some ''1ueGcxLPRx1Tr''\<rparr>
        else Inr \<lparr>Contents = Some [JObj [(''Key'', JStr ''collection02/b.tif''), (''Size'', JNum 4)]],
                  IsTruncated = Some False,
                  NextContinuationToken = None\<rparr>),
      GetObject = (\<lambda>input. Inl (StorageError ''The specified key does not exist.''))\<rparr>"

text \<open>A provider that has an object under every key.\<close>

definition any_key_client :: S3Client where
  "any_key_client =
     \<lparr>ListBuckets = Inr (),
      ListObjectsV2 = (\<lambda>input. Inl (StorageError ''Access Denied'')),
      GetObject = (\<lambda>input. Inr \<lparr>Body = Readable [tif_bytes] None\<rparr>)\<rparr>"

text \<open>
  A decoder that finds two images in \<open>tif_bytes\<close>, the first of one band and 2 by 1
  pixels, and rejects every other buffer.
\<close>

definition two_image_lib :: GeoTIFFLib where
  "two_image_lib = (\<lambda>arrayBuffer.
     if arrayBuffer = tif_bytes
     then Inr [\<lparr>readRasters = Inr [[7, 8]], getWidth = 2, getHeight = 1\<rparr>,
               \<lparr>readRasters = Inr [[9]], getWidth = 1, getHeight = 1\<rparr>]
     else Inl (DecodeError ''Invalid byte order value.''))"


text \<open>A key as a Windows client writes it: \<^verbatim>\<open>collection02\a.tif\<close>.\<close>

definition windows_key :: string where
  "windows_key = ''collection02'' @ [backslash] @ ''a.tif''"

text \<open>A key whose file name has a line feed (\<^verbatim>\<open>%0A\<close> in the URL).\<close>

definition linefeed_key :: string where
  "linefeed_key = ''collection02/a'' @ [CHR 0x0A] @ ''.tif''"

section \<open>Effects of the service operations\<close>

lemma requests_log_line: "requests (log_line l msg arg w) = requests w"
  by (simp add: log_line_def)

lemma decoded_log_line: "decoded (log_line l msg arg w) = decoded w"
  by (simp add: log_line_def)

lemma replace_all_map: "replace_all p [r] s = map (\<lambda>c. if c = p then r else c) s"
  by (induction s) simp_all

lemma sanitizedKey_map:
  "sanitizedKey key = map (\<lambda>c. if c = backslash then CHR ''/'' else c) key"
  by (simp add: sanitizedKey_def replace_all_map)

lemma getObject_requests:
  "requests (snd (S3Service_getObject client key w)) =
     requests w @ [GetObjectCommand \<lparr>Bucket = bucketName, RequestPayer = Some ''requester'', Key = key\<rparr>]"
  by (simp add: S3Service_getObject_def send_GetObject_def requests_log_line Let_def split: sum.splits)

lemma getObject_decoded:
  "decoded (snd (S3Service_getObject client key w)) = decoded w"
  by (simp add: S3Service_getObject_def send_GetObject_def decoded_log_line Let_def split: sum.splits)

lemma getObject_result:
  "fst (S3Service_getObject client key w) =
     (case GetObject client \<lparr>Bucket = bucketName, RequestPayer = Some ''requester'', Key = key\<rparr> of
        Inl e \<Rightarrow> Inl e
      | Inr response \<Rightarrow> streamToBuffer (Body response))"
  by (simp add: S3Service_getObject_def send_GetObject_def Let_def split: sum.splits)

lemma getGeoTIFFStream_requests:
  "requests (snd (S3Service_getGeoTIFFStream client key w)) =
     requests w @ [GetObjectCommand \<lparr>Bucket = bucketName, RequestPayer = Some ''requester'', Key = key\<rparr>]"
  by (simp add: S3Service_getGeoTIFFStream_def send_GetObject_def requests_log_line Let_def split: sum.splits)

lemma getGeoTIFFStream_decoded:
  "decoded (snd (S3Service_getGeoTIFFStream client key w)) = decoded w"
  by (simp add: S3Service_getGeoTIFFStream_def send_GetObject_def decoded_log_line Let_def split: sum.splits)

lemma toArrayBuffer_id: "toArrayBuffer buffer = buffer"
  by (simp add: toArrayBuffer_def)

lemma getObject_result_world:
  "fst (S3Service_getObject client key w) = fst (S3Service_getObject client key w')"
  by (simp add: getObject_result)

lemma getGeoTIFF_result:
  "fst (S3Service_getGeoTIFF client lib key w) =
     (case fst (S3Service_getObject client key w) of
        Inl e \<Rightarrow> Inl (Error ''Could not retrieve GeoTIFF data'')
      | Inr buffer \<Rightarrow>
          (case lib buffer of
             Inl e \<Rightarrow> Inl (Error ''Could not retrieve GeoTIFF data'')
           | Inr geoTiff \<Rightarrow>
               (case getImage geoTiff of
                  Inl e \<Rightarrow> Inl (Error ''Could not retrieve GeoTIFF data'')
                | Inr img \<Rightarrow>
                    (case readRasters img of
                       Inl e \<Rightarrow> Inl (Error ''Could not retrieve GeoTIFF data'')
                     | Inr rasters \<Rightarrow>
                         Inr \<lparr>rasterData = rasters, width = getWidth img,
                              height = getHeight img\<rparr>))))"
proof -
  define w0 where "w0 = log_line LOG (''Fetching GeoTIFF from S3 with key: '' @ key) None w"
  obtain r w1 where g: "S3Service_getObject client key w0 = (r, w1)"
    by (cases "S3Service_getObject client key w0")
  have r: "fst (S3Service_getObject client key w) = r"
    using g getObject_result_world [of client key w w0] by simp
  show ?thesis
    unfolding r S3Service_getGeoTIFF_def Let_def w0_def [symmetric] g
    by (simp add: fromArrayBuffer_def toArrayBuffer_id split: sum.splits)
qed

lemma getGeoTIFF_requests:
  "requests (snd (S3Service_getGeoTIFF client lib key w)) =
     requests w @ [GetObjectCommand \<lparr>Bucket = bucketName, RequestPayer = Some ''requester'', Key = key\<rparr>]"
proof -
  define w0 where "w0 = log_line LOG (''Fetching GeoTIFF from S3 with key: '' @ key) None w"
  obtain r w1 where g: "S3Service_getObject client key w0 = (r, w1)"
    by (cases "S3Service_getObject client key w0")
  have w1: "requests w1 = requests w @ [GetObjectCommand \<lparr>Bucket = bucketName, RequestPayer = Some ''requester'', Key = key\<rparr>]"
    using g getObject_requests [of client key w0] by (simp add: w0_def requests_log_line)
  show ?thesis
    unfolding S3Service_getGeoTIFF_def Let_def w0_def [symmetric] g
    by (simp add: fromArrayBuffer_def requests_log_line w1 split: sum.splits)
qed

lemma getGeoTIFF_decoded:
  "decoded (snd (S3Service_getGeoTIFF client lib key w)) =
     (case fst (S3Service_getObject client key w) of
        Inl e \<Rightarrow> decoded w
      | Inr buffer \<Rightarrow> decoded w @ [buffer])"
proof -
  define w0 where "w0 = log_line LOG (''Fetching GeoTIFF from S3 with key: '' @ key) None w"
  obtain r w1 where g: "S3Service_getObject client key w0 = (r, w1)"
    by (cases "S3Service_getObject client key w0")
  have r: "fst (S3Service_getObject client key w) = r"
    using g getObject_result_world [of client key w w0] by simp
  have w1: "decoded w1 = decoded w"
    using g getObject_decoded [of client key w0] by (simp add: w0_def decoded_log_line)
  show ?thesis
    unfolding r S3Service_getGeoTIFF_def Let_def w0_def [symmetric] g
    by (simp add: fromArrayBuffer_def toArrayBuffer_id decoded_log_line w1 split: sum.splits)
qed

lemma listObjects_requests:
  "requests (snd (S3Service_listObjects client prefix token w)) =
     requests w @ [ListObjectsV2Command \<lparr>Bucket = bucketName, RequestPayer = Some ''requester'',
        Prefix = Some (case prefix of None \<Rightarrow> ''collection02/'' | Some p \<Rightarrow> p),
        ContinuationToken = token\<rparr>]"
  by (simp add: S3Service_listObjects_def send_ListObjectsV2_def requests_log_line Let_def split: sum.splits)

section \<open>Effects of the routes\<close>

lemma issued_append: "requests w' = requests w @ cs \<Longrightarrow> issued w w' = cs"
  by (simp add: issued_def)

lemma getObject_try_world:
  "snd (snd (getObject_try client sanitized res w)) = snd (S3Service_getObject client sanitized w)"
  by (simp add: getObject_try_def split: prod.splits sum.splits)

lemma getObject_try_failed:
  assumes "fst (S3Service_getObject client sanitized w) = Inl e"
  shows "fst (getObject_try client sanitized res w) = Inl e
       \<and> fst (snd (getObject_try client sanitized res w)) = res"
proof -
  obtain r w1 where g: "S3Service_getObject client sanitized w = (r, w1)"
    by (cases "S3Service_getObject client sanitized w")
  with assms have "r = Inl e"
    by simp
  with g show ?thesis
    by (simp add: getObject_try_def)
qed

lemma getGeoTIFFStream_try_world:
  "snd (snd (getGeoTIFFStream_try client key res w)) =
     snd (S3Service_getGeoTIFFStream client (sanitizedKey key) w)"
  by (simp add: getGeoTIFFStream_try_def Let_def split: prod.splits sum.splits)



lemma GET_object_requests:
  "requests (snd (GET_object client key w)) =
     requests w @ [GetObjectCommand \<lparr>Bucket = bucketName, RequestPayer = Some ''requester'',
                                     Key = sanitizedKey key\<rparr>]"
proof -
  have "requests (snd (GET_object client key w)) =
          requests (snd (snd (getObject_try client (sanitizedKey key) new_response w)))"
    by (simp add: GET_object_def S3Controller_getObject_def Let_def split: prod.splits sum.splits)
  then show ?thesis
    by (simp add: getObject_try_world getObject_requests)
qed

lemma GET_get_geotiff_stream_requests:
  "requests (snd (GET_get_geotiff_stream client key w)) =
     requests w @ [GetObjectCommand \<lparr>Bucket = bucketName, RequestPayer = Some ''requester'',
                                     Key = sanitizedKey key\<rparr>]"
proof -
  have "requests (snd (GET_get_geotiff_stream client key w)) =
          requests (snd (snd (getGeoTIFFStream_try client key new_response w)))"
    by (simp add: GET_get_geotiff_stream_def S3Controller_getGeoTIFFStream_def requests_log_line
          split: prod.splits sum.splits)
  then show ?thesis
    by (simp add: getGeoTIFFStream_try_world getGeoTIFFStream_requests)
qed

lemma GET_get_geotiff_requests:
  "requests (snd (GET_get_geotiff client lib key w)) =
     requests w @ [GetObjectCommand \<lparr>Bucket = bucketName, RequestPayer = Some ''requester'',
                                     Key = sanitizedKey key\<rparr>]"
proof -
  obtain r w1 where g: "S3Service_getGeoTIFF client lib (sanitizedKey key) w = (r, w1)"
    by (cases "S3Service_getGeoTIFF client lib (sanitizedKey key) w")
  have "requests w1 = requests w @ [GetObjectCommand \<lparr>Bucket = bucketName,
          RequestPayer = Some ''requester'', Key = sanitizedKey key\<rparr>]"
    using g getGeoTIFF_requests [of client lib "sanitizedKey key" w] by simp
  then show ?thesis
    by (simp add: GET_get_geotiff_def S3Controller_getGeoTIFF_def Let_def g
          requests_log_line split: sum.splits)
qed

lemma getGeoTIFFStream_result:
  "fst (S3Service_getGeoTIFFStream client key w) =
     (case GetObject client \<lparr>Bucket = bucketName, RequestPayer = Some ''requester'', Key = key\<rparr> of
        Inl e \<Rightarrow> Inl (Error ''Could not retrieve GeoTIFF stream'')
      | Inr response \<Rightarrow> Inr (Body response))"
  by (simp add: S3Service_getGeoTIFFStream_def send_GetObject_def Let_def split: sum.splits)

lemma sanitizedKey_no_backslash: "backslash \<notin> set key \<Longrightarrow> sanitizedKey key = key"
  by (induction key) (auto simp add: sanitizedKey_def)

lemma sanitizedKey_clean: "backslash \<notin> set (sanitizedKey key)"
  by (auto simp add: sanitizedKey_map backslash_def)

section \<open>Error handling\<close>

text \<open>
  Claim C1, as stated: when the initial storage request fails, \<^verbatim>\<open>getGeoTIFFStream\<close> fails
  with the provider's error itself. It does not: for a key that the provider rejects
  with a \<open>StorageError\<close>, the operation fails with another error.
\<close>

theorem getGeoTIFFStream_replaces_provider_error:
  "GetObject denying_client \<lparr>Bucket = bucketName, RequestPayer = Some ''requester'',
                              Key = ''collection02/foo.tif''\<rparr>
     = Inl (StorageError ''The specified key does not exist.'')
   \<and> fst (S3Service_getGeoTIFFStream denying_client ''collection02/foo.tif'' quiet)
     \<noteq> Inl (StorageError ''The specified key does not exist.'')"
  by (simp add: getGeoTIFFStream_result denying_client_def)

text \<open>
  Claim C1, amended: for every key whose initial storage request fails, whatever the
  provider's error is, \<^verbatim>\<open>getGeoTIFFStream\<close> fails with the service's own error whose
  message is \<^verbatim>\<open>Could not retrieve GeoTIFF stream\<close>; the provider's error goes to the
  log and no further.
\<close>

theorem getGeoTIFFStream_failure_generic:
  assumes "GetObject client \<lparr>Bucket = bucketName, RequestPayer = Some ''requester'', Key = key\<rparr> = Inl e"
  shows "fst (S3Service_getGeoTIFFStream client key w) = Inl (Error ''Could not retrieve GeoTIFF stream'')
       \<and> logs (snd (S3Service_getGeoTIFFStream client key w)) =
           logs w @ [LogEntry LOG (''Fetching GeoTIFF stream from S3 with key: '' @ key) None,
                     LogEntry ERROR (''Error getting GeoTIFF stream for key: '' @ key)
                       (Some (ErrorArg e))]"
  using assms
  by (simp add: S3Service_getGeoTIFFStream_def send_GetObject_def log_line_def Let_def)

text \<open>Claim C1, amended, at a provider that rejects the request for a missing key.\<close>

theorem getGeoTIFFStream_failure_generic_witness:
  "GetObject denying_client \<lparr>Bucket = bucketName, RequestPayer = Some ''requester'',
                              Key = ''collection02/foo.tif''\<rparr>
     = Inl (StorageError ''The specified key does not exist.'')
   \<and> fst (S3Service_getGeoTIFFStream denying_client ''collection02/foo.tif'' quiet)
     = Inl (Error ''Could not retrieve GeoTIFF stream'')
   \<and> logs (snd (S3Service_getGeoTIFFStream denying_client ''collection02/foo.tif'' quiet)) =
       [LogEntry LOG ''Fetching GeoTIFF stream from S3 with key: collection02/foo.tif'' None,
        LogEntry ERROR ''Error getting GeoTIFF stream for key: collection02/foo.tif''
          (Some (ErrorArg (StorageError ''The specified key does not exist.'')))]"
proof -
  have h: "GetObject denying_client \<lparr>Bucket = bucketName, RequestPayer = Some ''requester'',
             Key = ''collection02/foo.tif''\<rparr> = Inl (StorageError ''The specified key does not exist.'')"
    by (simp add: denying_client_def)
  show ?thesis
    using h getGeoTIFFStream_failure_generic [OF h, of quiet] by (simp add: quiet_def)
qed



lemma windows_key_sanitized: "sanitizedKey windows_key = ''collection02/a.tif''"
  by (simp add: windows_key_def sanitizedKey_def backslash_def)

lemma getObject_serving:
  "fst (S3Service_getObject serving_client ''collection02/a.tif'' w) = Inr tif_bytes"
  by (simp add: getObject_result serving_client_def tif_bytes_def)

lemma linefeed_key_refused:
  "\<not> valid_header_value (content_disposition kind (sanitizedKey linefeed_key))"
  by (simp add: linefeed_key_def sanitizedKey_def backslash_def content_disposition_def
        pop_def template_def dquote_def valid_header_value_def valid_header_char_def)


text \<open>
  The same file name on the buffered-object route: the object is retrieved, the header
  is refused, and the answer is 500 with the HTTP library's message.
\<close>

lemma object_route_refused_header:
  "fst (GET_object any_key_client linefeed_key quiet) =
     \<lparr>status = 500, headers = [(''Content-Type'', ''application/octet-stream'')],
      body = JsonBody (JObj [(''message'', JStr ''Error retrieving the object''),
               (''error'', JStr (''Invalid character in header content ['' @ dquote
                                   @ ''Content-Disposition'' @ dquote @ '']''))])\<rparr>"
  using linefeed_key_refused [of "''attachment''"]
  by (simp add: GET_object_def S3Controller_getObject_def getObject_try_def
        S3Service_getObject_def send_GetObject_def any_key_client_def Let_def
        valid_header_value_def valid_header_char_def res_json_def res_status_def
        new_response_def INTERNAL_SERVER_ERROR_def)

text \<open>
  Claim C3: \<^verbatim>\<open>verifyAWSAuthentication\<close> never throws; it returns true when the
  privileged call succeeds and false when it fails, and \<^verbatim>\<open>GET /s3/verify\<close> always
  answers status 200 with the body \<^verbatim>\<open>{"authenticated": b}\<close> for that boolean.
\<close>

theorem verify_never_throws:
  "fst (verifyAWSAuthentication client w) = Inr (\<not> isl (ListBuckets client))
   \<and> fst (GET_verify client w) =
       \<lparr>status = 200, headers = [],
        body = JsonBody (JObj [(''authenticated'', JBool (\<not> isl (ListBuckets client)))])\<rparr>"
  by (simp add: GET_verify_def S3Controller_verifyAWS_def verifyAWSAuthentication_def
        send_ListBuckets_def framework_reply_def VerifyResult_json_def split: sum.splits)

section \<open>Effects of the listing and of the streaming route\<close>

lemma listObjects_result:
  "fst (S3Service_listObjects client prefix token w) =
     ListObjectsV2 client \<lparr>Bucket = bucketName, RequestPayer = Some ''requester'',
        Prefix = Some (case prefix of None \<Rightarrow> ''collection02/'' | Some p \<Rightarrow> p),
        ContinuationToken = token\<rparr>"
  by (simp add: S3Service_listObjects_def send_ListObjectsV2_def Let_def split: sum.splits)

lemma controller_listObjects_requests:
  "requests (snd (S3Controller_listObjects client prefix token w)) =
     requests w @ [ListObjectsV2Command \<lparr>Bucket = bucketName, RequestPayer = Some ''requester'',
        Prefix = Some (case prefix of None \<Rightarrow> ''collection02/'' | Some p \<Rightarrow> p),
        ContinuationToken = token\<rparr>]"
proof -
  define p where "p = (case prefix of None \<Rightarrow> ''collection02/'' | Some p \<Rightarrow> p)"
  obtain r w1 where g: "S3Service_listObjects client (Some p) token w = (r, w1)"
    by (cases "S3Service_listObjects client (Some p) token w")
  have "requests w1 = requests w @ [ListObjectsV2Command \<lparr>Bucket = bucketName,
          RequestPayer = Some ''requester'', Prefix = Some p, ContinuationToken = token\<rparr>]"
    using g listObjects_requests [of client "Some p" token w] by simp
  then show ?thesis
    unfolding S3Controller_listObjects_def Let_def p_def [symmetric] g
    by (simp split: sum.splits)
qed

lemma controller_listObjects_result:
  "fst (S3Controller_listObjects client prefix token w) =
     (case ListObjectsV2 client \<lparr>Bucket = bucketName, RequestPayer = Some ''requester'',
             Prefix = Some (case prefix of None \<Rightarrow> ''collection02/'' | Some p \<Rightarrow> p),
             ContinuationToken = token\<rparr> of
        Inl e \<Rightarrow> Inl e
      | Inr response \<Rightarrow>
          Inr \<lparr>contents = Contents response, isTruncated = IsTruncated response,
               nextContinuationToken = NextContinuationToken response\<rparr>)"
proof -
  define p where "p = (case prefix of None \<Rightarrow> ''collection02/'' | Some p \<Rightarrow> p)"
  obtain r w1 where g: "S3Service_listObjects client (Some p) token w = (r, w1)"
    by (cases "S3Service_listObjects client (Some p) token w")
  have "r = ListObjectsV2 client \<lparr>Bucket = bucketName, RequestPayer = Some ''requester'',
          Prefix = Some p, ContinuationToken = token\<rparr>"
    using g listObjects_result [of client "Some p" token w] by simp
  then show ?thesis
    unfolding S3Controller_listObjects_def Let_def p_def [symmetric] g
    by (simp split: sum.splits)
qed

lemma GET_list_requests:
  "requests (snd (GET_list client prefix token w)) =
     requests (snd (S3Controller_listObjects client prefix token w))"
  by (simp add: GET_list_def split: prod.splits)

lemma GET_list_reply:
  "fst (GET_list client prefix token w) =
     framework_reply ListResult_json (fst (S3Controller_listObjects client prefix token w))"
  by (simp add: GET_list_def split: prod.splits)

lemma GET_get_geotiff_stream_decoded:
  "decoded (snd (GET_get_geotiff_stream client key w)) = decoded w"
proof -
  have "decoded (snd (GET_get_geotiff_stream client key w)) =
          decoded (snd (snd (getGeoTIFFStream_try client key new_response w)))"
    by (simp add: GET_get_geotiff_stream_def S3Controller_getGeoTIFFStream_def decoded_log_line
          split: prod.splits sum.splits)
  then show ?thesis
    by (simp add: getGeoTIFFStream_try_world getGeoTIFFStream_decoded)
qed

section \<open>Failures of the buffered-object route\<close>

text \<open>
  Claim C7: whenever the provider fails the retrieval behind \<^verbatim>\<open>/s3/object/<key>\<close> (it
  rejects the request, as for a missing object, or the body stream ends in an error),
  the response has status 500 and a JSON body whose message is
  \<^verbatim>\<open>Error retrieving the object\<close> and whose error is the message of the provider's
  error, unchanged.
\<close>

theorem object_route_failure_500:
  assumes "provider_failure client (sanitizedKey key) = Some e"
  shows "fst (S3Service_getObject client (sanitizedKey key) w) = Inl e
       \<and> fst (GET_object client key w) =
           \<lparr>status = 500, headers = [],
            body = JsonBody (JObj [(''message'', JStr ''Error retrieving the object''),
                                   (''error'', JStr (message e))])\<rparr>"
proof -
  obtain r w1 where g: "S3Service_getObject client (sanitizedKey key) w = (r, w1)"
    by (cases "S3Service_getObject client (sanitizedKey key) w")
  have "fst (S3Service_getObject client (sanitizedKey key) w) = Inl e"
  proof (cases "GetObject client \<lparr>Bucket = bucketName, RequestPayer = Some ''requester'',
                  Key = sanitizedKey key\<rparr>")
    case (Inl e')
    with assms show ?thesis
      by (simp add: getObject_result provider_failure_def)
  next
    case (Inr response)
    with assms have "failure (Body response) = Some e"
      by (simp add: provider_failure_def)
    then have "streamToBuffer (Body response) = Inl e"
      by (cases "Body response") simp
    with Inr show ?thesis
      by (simp add: getObject_result)
  qed
  with g have f: "fst (S3Service_getObject client (sanitizedKey key) w) = Inl e"
    by simp
  obtain res1 w2 where t: "getObject_try client (sanitizedKey key) new_response w = (Inl e, res1, w2)"
    using getObject_try_failed [OF f, of new_response]
    by (cases "getObject_try client (sanitizedKey key) new_response w") auto
  have "res1 = new_response"
    using getObject_try_failed [OF f, of new_response] t by simp
  with t f show ?thesis
    by (simp add: GET_object_def S3Controller_getObject_def Let_def res_json_def res_status_def
          new_response_def INTERNAL_SERVER_ERROR_def)
qed

text \<open>
  Claim C7 at a missing object and at a body stream that breaks off.
\<close>

theorem object_route_failure_500_witness:
  "provider_failure denying_client (sanitizedKey ''collection02/foo.tif'')
     = Some (StorageError ''The specified key does not exist.'')
   \<and> fst (GET_object denying_client ''collection02/foo.tif'' quiet) =
       \<lparr>status = 500, headers = [],
        body = JsonBody (JObj [(''message'', JStr ''Error retrieving the object''),
                               (''error'', JStr ''The specified key does not exist.'')])\<rparr>
   \<and> provider_failure breaking_client (sanitizedKey windows_key) = Some (StorageError ''aborted'')
   \<and> fst (GET_object breaking_client windows_key quiet) =
       \<lparr>status = 500, headers = [],
        body = JsonBody (JObj [(''message'', JStr ''Error retrieving the object''),
                               (''error'', JStr ''aborted'')])\<rparr>"
proof -
  have a: "provider_failure denying_client (sanitizedKey ''collection02/foo.tif'')
             = Some (StorageError ''The specified key does not exist.'')"
    by (simp add: provider_failure_def denying_client_def)
  have b: "provider_failure breaking_client (sanitizedKey windows_key) = Some (StorageError ''aborted'')"
    by (simp add: provider_failure_def breaking_client_def)
  show ?thesis
    using a b object_route_failure_500 [OF a, of quiet] object_route_failure_500 [OF b, of quiet]
    by simp
qed

section \<open>Keys\<close>

text \<open>
  Claim C4: for every key with a backslash given to \<^verbatim>\<open>/s3/object/*\<close>,
  \<^verbatim>\<open>/s3/get-geotiff-stream/*\<close> or \<^verbatim>\<open>/s3/get-geotiff/*\<close>, the one storage call
  of the route is made with the key in which every backslash is replaced with a forward
  slash and every other character is kept.
\<close>

theorem wildcard_routes_normalise_backslashes:
  assumes "backslash \<in> set key"
  shows "issued w (snd (GET_object client key w)) =
           [GetObjectCommand \<lparr>Bucket = bucketName, RequestPayer = Some ''requester'',
              Key = map (\<lambda>c. if c = backslash then CHR ''/'' else c) key\<rparr>]
       \<and> issued w (snd (GET_get_geotiff_stream client key w)) =
           [GetObjectCommand \<lparr>Bucket = bucketName, RequestPayer = Some ''requester'',
              Key = map (\<lambda>c. if c = backslash then CHR ''/'' else c) key\<rparr>]
       \<and> issued w (snd (GET_get_geotiff client lib key w)) =
           [GetObjectCommand \<lparr>Bucket = bucketName, RequestPayer = Some ''requester'',
              Key = map (\<lambda>c. if c = backslash then CHR ''/'' else c) key\<rparr>]"
proof -
  have k: "map (\<lambda>c. if c = backslash then CHR ''/'' else c) key = sanitizedKey key"
    by (simp add: sanitizedKey_map)
  have "issued w (snd (GET_object client key w)) =
          [GetObjectCommand \<lparr>Bucket = bucketName, RequestPayer = Some ''requester'',
             Key = sanitizedKey key\<rparr>]"
    by (rule issued_append) (rule GET_object_requests)
  moreover have "issued w (snd (GET_get_geotiff_stream client key w)) =
          [GetObjectCommand \<lparr>Bucket = bucketName, RequestPayer = Some ''requester'',
             Key = sanitizedKey key\<rparr>]"
    by (rule issued_append) (rule GET_get_geotiff_stream_requests)
  moreover have "issued w (snd (GET_get_geotiff client lib key w)) =
          [GetObjectCommand \<lparr>Bucket = bucketName, RequestPayer = Some ''requester'',
             Key = sanitizedKey key\<rparr>]"
    by (rule issued_append) (rule GET_get_geotiff_requests)
  ultimately show ?thesis
    unfolding k by simp
qed

text \<open>
  Claim C4 at the key \<open>windows_key\<close>.
\<close>

theorem wildcard_routes_normalise_backslashes_witness:
  "backslash \<in> set windows_key
   \<and> issued quiet (snd (GET_object serving_client windows_key quiet)) =
       [GetObjectCommand \<lparr>Bucket = ''usgs-landsat'', RequestPayer = Some ''requester'',
          Key = ''collection02/a.tif''\<rparr>]
   \<and> issued quiet (snd (GET_get_geotiff_stream serving_client windows_key quiet)) =
       [GetObjectCommand \<lparr>Bucket = ''usgs-landsat'', RequestPayer = Some ''requester'',
          Key = ''collection02/a.tif''\<rparr>]
   \<and> issued quiet (snd (GET_get_geotiff serving_client two_image_lib windows_key quiet)) =
       [GetObjectCommand \<lparr>Bucket = ''usgs-landsat'', RequestPayer = Some ''requester'',
          Key = ''collection02/a.tif''\<rparr>]"
proof -
  have h: "backslash \<in> set windows_key"
    by (simp add: windows_key_def)
  show ?thesis
    using h wildcard_routes_normalise_backslashes [OF h, of quiet serving_client two_image_lib]
    by (simp add: windows_key_def bucketName_def backslash_def)
qed

text \<open>
  Claim C10: the sanitization of the three wildcard routes is idempotent, and it is the
  identity on a key without backslash, so that such a key reaches the storage call
  unchanged.
\<close>

theorem sanitizedKey_idempotent_identity:
  "sanitizedKey (sanitizedKey key) = sanitizedKey key
   \<and> (backslash \<notin> set key \<longrightarrow>
        sanitizedKey key = key
      \<and> issued w (snd (GET_object client key w)) =
           [GetObjectCommand \<lparr>Bucket = bucketName, RequestPayer = Some ''requester'', Key = key\<rparr>]
      \<and> issued w (snd (GET_get_geotiff_stream client key w)) =
           [GetObjectCommand \<lparr>Bucket = bucketName, RequestPayer = Some ''requester'', Key = key\<rparr>]
      \<and> issued w (snd (GET_get_geotiff client lib key w)) =
           [GetObjectCommand \<lparr>Bucket = bucketName, RequestPayer = Some ''requester'', Key = key\<rparr>])"
proof (intro conjI impI)
  show "sanitizedKey (sanitizedKey key) = sanitizedKey key"
    by (rule sanitizedKey_no_backslash) (rule sanitizedKey_clean)
next
  assume "backslash \<notin> set key"
  then show "sanitizedKey key = key"
    by (rule sanitizedKey_no_backslash)
next
  assume "backslash \<notin> set key"
  then have k: "sanitizedKey key = key"
    by (rule sanitizedKey_no_backslash)
  show "issued w (snd (GET_object client key w)) =
          [GetObjectCommand \<lparr>Bucket = bucketName, RequestPayer = Some ''requester'', Key = key\<rparr>]"
    using issued_append [OF GET_object_requests, of w client key] by (simp add: k)
next
  assume "backslash \<notin> set key"
  then have k: "sanitizedKey key = key"
    by (rule sanitizedKey_no_backslash)
  show "issued w (snd (GET_get_geotiff_stream client key w)) =
          [GetObjectCommand \<lparr>Bucket = bucketName, RequestPayer = Some ''requester'', Key = key\<rparr>]"
    using issued_append [OF GET_get_geotiff_stream_requests, of w client key] by (simp add: k)
next
  assume "backslash \<notin> set key"
  then have k: "sanitizedKey key = key"
    by (rule sanitizedKey_no_backslash)
  show "issued w (snd (GET_get_geotiff client lib key w)) =
          [GetObjectCommand \<lparr>Bucket = bucketName, RequestPayer = Some ''requester'', Key = key\<rparr>]"
    using issued_append [OF GET_get_geotiff_requests, of w client lib key] by (simp add: k)
qed

text \<open>
  Claim C10 at \<open>windows_key\<close>, whose sanitized form has no backslash and is left as it is.
\<close>

theorem sanitizedKey_idempotent_identity_witness:
  "sanitizedKey (sanitizedKey windows_key) = sanitizedKey windows_key
   \<and> sanitizedKey windows_key = ''collection02/a.tif''
   \<and> backslash \<notin> set ''collection02/a.tif''
   \<and> sanitizedKey ''collection02/a.tif'' = ''collection02/a.tif''
   \<and> issued quiet (snd (GET_object serving_client ''collection02/a.tif'' quiet)) =
       [GetObjectCommand \<lparr>Bucket = ''usgs-landsat'', RequestPayer = Some ''requester'',
          Key = ''collection02/a.tif''\<rparr>]"
proof -
  have h: "backslash \<notin> set ''collection02/a.tif''"
    by (simp add: backslash_def)
  show ?thesis
    using h sanitizedKey_idempotent_identity [of windows_key quiet serving_client two_image_lib]
      sanitizedKey_idempotent_identity [of "''collection02/a.tif''" quiet serving_client two_image_lib]
    by (simp add: windows_key_sanitized bucketName_def)
qed

section \<open>Listing\<close>

text \<open>
  Claim C5: in every listing result returned by \<^verbatim>\<open>listObjects\<close>, and in the JSON body
  of \<^verbatim>\<open>GET /s3/list\<close>, the continuation token is absent when \<^verbatim>\<open>isTruncated\<close> is false
  and present when it is true. The service and the controller pass both fields of the
  provider's answer on unchanged, and the provider's listing interface answers with a
  token exactly on a truncated page: that relation of the answer is the second
  hypothesis, the answer and the result are the first and the third.
\<close>

theorem listing_token_iff_truncated:
  assumes "ListObjectsV2 client \<lparr>Bucket = bucketName, RequestPayer = Some ''requester'',
             Prefix = Some (case prefix of None \<Rightarrow> ''collection02/'' | Some p \<Rightarrow> p),
             ContinuationToken = token\<rparr> = Inr response"
    and "token_iff_truncated (IsTruncated response) (NextContinuationToken response)"
    and "fst (S3Controller_listObjects client prefix token w) = Inr result"
  shows "(isTruncated result = Some False \<longrightarrow> nextContinuationToken result = None)
       \<and> (isTruncated result = Some True \<longrightarrow> nextContinuationToken result \<noteq> None)
       \<and> fst (GET_list client prefix token w) =
           \<lparr>status = 200, headers = [], body = JsonBody (ListResult_json result)\<rparr>
       \<and> (field (ListResult_json result) ''isTruncated'' = Some (JBool False) \<longrightarrow>
            field (ListResult_json result) ''nextContinuationToken'' = None)
       \<and> (field (ListResult_json result) ''isTruncated'' = Some (JBool True) \<longrightarrow>
            field (ListResult_json result) ''nextContinuationToken'' \<noteq> None)
       \<and> fst (S3Service_listObjects client prefix token w) = Inr response
       \<and> isTruncated result = IsTruncated response
       \<and> nextContinuationToken result = NextContinuationToken response"
proof -
  have result: "result = \<lparr>contents = Contents response,
    isTruncated = IsTruncated response,
    nextContinuationToken = NextContinuationToken response\<rparr>"
    using assms(1) assms(3) by (simp add: controller_listObjects_result)
  have s: "fst (S3Service_listObjects client prefix token w) = Inr response"
    using assms(1) by (simp add: listObjects_result)
  have g: "fst (GET_list client prefix token w) =
             \<lparr>status = 200, headers = [], body = JsonBody (ListResult_json result)\<rparr>"
    by (simp add: GET_list_reply assms(3) framework_reply_def)
  have t: "field (ListResult_json result) ''isTruncated'' = map_option JBool (IsTruncated response)"
    by (simp add: ListResult_json_def property_def result split: option.splits)
  have n: "field (ListResult_json result) ''nextContinuationToken''
             = map_option JStr (NextContinuationToken response)"
    by (simp add: ListResult_json_def property_def result split: option.splits)
  have f: "IsTruncated response = Some False \<longrightarrow> NextContinuationToken response = None"
    using assms(2) by (simp add: token_iff_truncated_def)
  have p: "IsTruncated response = Some True \<longrightarrow> NextContinuationToken response \<noteq> None"
    using assms(2) by (simp add: token_iff_truncated_def)
  have jf: "field (ListResult_json result) ''isTruncated'' = Some (JBool False) \<longrightarrow>
              field (ListResult_json result) ''nextContinuationToken'' = None"
    using f unfolding t n by auto
  have jp: "field (ListResult_json result) ''isTruncated'' = Some (JBool True) \<longrightarrow>
              field (ListResult_json result) ''nextContinuationToken'' \<noteq> None"
    using p unfolding t n by auto
  have rf: "isTruncated result = Some False \<longrightarrow> nextContinuationToken result = None"
    using f by (simp add: result)
  have rp: "isTruncated result = Some True \<longrightarrow> nextContinuationToken result \<noteq> None"
    using p by (simp add: result)
  have e: "isTruncated result = IsTruncated response
         \<and> nextContinuationToken result = NextContinuationToken response"
    by (simp add: result)
  show ?thesis
    using s g e rf rp jf jp by blast
qed

text \<open>
  Claim C5 at the two pages of a listing: the first truncated, with its token, in the
  result and in the JSON body; the second the last, without a token.
\<close>

theorem listing_token_iff_truncated_witness:
  "ListObjectsV2 paging_client \<lparr>Bucket = bucketName, RequestPayer = Some ''requester'',
      Prefix = Some ''collection02/'', ContinuationToken = None\<rparr>
     = Inr \<lparr>Contents = Some [JObj [(''Key'', JStr ''collection02/a.tif''), (''Size'', JNum 4)]],
            IsTruncated = Some True, NextContinuationToken = Some ''1ueGcxLPRx1Tr''\<rparr>
   \<and> token_iff_truncated (Some True) (Some ''1ueGcxLPRx1Tr'')
   \<and> fst (S3Controller_listObjects paging_client None None quiet)
     = Inr \<lparr>contents = Some [JObj [(''Key'', JStr ''collection02/a.tif''), (''Size'', JNum 4)]],
            isTruncated = Some True, nextContinuationToken = Some ''1ueGcxLPRx1Tr''\<rparr>
   \<and> field (ListResult_json \<lparr>contents = Some [JObj [(''Key'', JStr ''collection02/a.tif''), (''Size'', JNum 4)]],
            isTruncated = Some True, nextContinuationToken = Some ''1ueGcxLPRx1Tr''\<rparr>) ''isTruncated'' = Some (JBool True)
   \<and> field (ListResult_json \<lparr>contents = Some [JObj [(''Key'', JStr ''collection02/a.tif''), (''Size'', JNum 4)]],
            isTruncated = Some True, nextContinuationToken = Some ''1ueGcxLPRx1Tr''\<rparr>) ''nextContinuationToken'' \<noteq> None
   \<and> ListObjectsV2 paging_client \<lparr>Bucket = bucketName, RequestPayer = Some ''requester'',
      Prefix = Some ''collection02/'', ContinuationToken = Some ''1ueGcxLPRx1Tr''\<rparr>
     = Inr \<lparr>Contents = Some [JObj [(''Key'', JStr ''collection02/b.tif''), (''Size'', JNum 4)]],
            IsTruncated = Some False, NextContinuationToken = None\<rparr>
   \<and> token_iff_truncated (Some False) None
   \<and> fst (S3Controller_listObjects paging_client None (Some ''1ueGcxLPRx1Tr'') quiet)
     = Inr \<lparr>contents = Some [JObj [(''Key'', JStr ''collection02/b.tif''), (''Size'', JNum 4)]],
            isTruncated = Some False, nextContinuationToken = None\<rparr>
   \<and> field (ListResult_json \<lparr>contents = Some [JObj [(''Key'', JStr ''collection02/b.tif''), (''Size'', JNum 4)]],
            isTruncated = Some False, nextContinuationToken = None\<rparr>) ''isTruncated'' = Some (JBool False)
   \<and> field (ListResult_json \<lparr>contents = Some [JObj [(''Key'', JStr ''collection02/b.tif''), (''Size'', JNum 4)]],
            isTruncated = Some False, nextContinuationToken = None\<rparr>) ''nextContinuationToken'' = None"
proof -
  have a: "ListObjectsV2 paging_client \<lparr>Bucket = bucketName, RequestPayer = Some ''requester'',
      Prefix = Some (case None of None \<Rightarrow> ''collection02/'' | Some p \<Rightarrow> p), ContinuationToken = None\<rparr>
     = Inr \<lparr>Contents = Some [JObj [(''Key'', JStr ''collection02/a.tif''), (''Size'', JNum 4)]],
            IsTruncated = Some True, NextContinuationToken = Some ''1ueGcxLPRx1Tr''\<rparr>"
    by (simp add: paging_client_def)
  have a': "token_iff_truncated (IsTruncated \<lparr>Contents = Some [JObj [(''Key'', JStr ''collection02/a.tif''), (''Size'', JNum 4)]],
            IsTruncated = Some True, NextContinuationToken = Some ''1ueGcxLPRx1Tr''\<rparr>) (NextContinuationToken \<lparr>Contents = Some [JObj [(''Key'', JStr ''collection02/a.tif''), (''Size'', JNum 4)]],
            IsTruncated = Some True, NextContinuationToken = Some ''1ueGcxLPRx1Tr''\<rparr>)"
    by (simp add: token_iff_truncated_def)
  have a'': "fst (S3Controller_listObjects paging_client None None quiet) = Inr \<lparr>contents = Some [JObj [(''Key'', JStr ''collection02/a.tif''), (''Size'', JNum 4)]],
            isTruncated = Some True, nextContinuationToken = Some ''1ueGcxLPRx1Tr''\<rparr>"
    by (simp add: controller_listObjects_result paging_client_def)
  have b: "ListObjectsV2 paging_client \<lparr>Bucket = bucketName, RequestPayer = Some ''requester'',
      Prefix = Some (case None of None \<Rightarrow> ''collection02/'' | Some p \<Rightarrow> p),
      ContinuationToken = Some ''1ueGcxLPRx1Tr''\<rparr>
     = Inr \<lparr>Contents = Some [JObj [(''Key'', JStr ''collection02/b.tif''), (''Size'', JNum 4)]],
            IsTruncated = Some False, NextContinuationToken = None\<rparr>"
    by (simp add: paging_client_def)
  have b': "token_iff_truncated (IsTruncated \<lparr>Contents = Some [JObj [(''Key'', JStr ''collection02/b.tif''), (''Size'', JNum 4)]],
            IsTruncated = Some False, NextContinuationToken = None\<rparr>) (NextContinuationToken \<lparr>Contents = Some [JObj [(''Key'', JStr ''collection02/b.tif''), (''Size'', JNum 4)]],
            IsTruncated = Some False, NextContinuationToken = None\<rparr>)"
    by (simp add: token_iff_truncated_def)
  have b'': "fst (S3Controller_listObjects paging_client None (Some ''1ueGcxLPRx1Tr'') quiet) = Inr \<lparr>contents = Some [JObj [(''Key'', JStr ''collection02/b.tif''), (''Size'', JNum 4)]],
            isTruncated = Some False, nextContinuationToken = None\<rparr>"
    by (simp add: controller_listObjects_result paging_client_def)
  have j: "field (ListResult_json \<lparr>contents = Some [JObj [(''Key'', JStr ''collection02/a.tif''), (''Size'', JNum 4)]],
            isTruncated = Some True, nextContinuationToken = Some ''1ueGcxLPRx1Tr''\<rparr>) ''isTruncated'' = Some (JBool True)
         \<and> field (ListResult_json \<lparr>contents = Some [JObj [(''Key'', JStr ''collection02/b.tif''), (''Size'', JNum 4)]],
            isTruncated = Some False, nextContinuationToken = None\<rparr>) ''isTruncated'' = Some (JBool False)"
    by (simp add: ListResult_json_def property_def)
  show ?thesis
    using a a' a'' b b' b'' j
      listing_token_iff_truncated [OF a a' a'']
      listing_token_iff_truncated [OF b b' b'']
    by simp
qed

text \<open>
  Claim C9: when the caller omits the prefix, the listing is made with the prefix
  \<^verbatim>\<open>collection02/\<close>, in the service and through \<^verbatim>\<open>GET /s3/list\<close> alike; and whatever
  the caller gives, the command sent to the provider has a prefix.
\<close>

theorem listing_prefix_default:
  "issued w (snd (S3Service_listObjects client None token w)) =
     [ListObjectsV2Command \<lparr>Bucket = bucketName, RequestPayer = Some ''requester'',
        Prefix = Some ''collection02/'', ContinuationToken = token\<rparr>]
   \<and> issued w (snd (GET_list client None token w)) =
     [ListObjectsV2Command \<lparr>Bucket = bucketName, RequestPayer = Some ''requester'',
        Prefix = Some ''collection02/'', ContinuationToken = token\<rparr>]
   \<and> GET_list client None token w = GET_list client (Some ''collection02/'') token w
   \<and> (\<exists>input p. issued w (snd (S3Service_listObjects client prefix token w)) =
                   [ListObjectsV2Command input] \<and> Prefix input = Some p)
   \<and> (\<exists>input p. issued w (snd (GET_list client prefix token w)) =
                   [ListObjectsV2Command input] \<and> Prefix input = Some p)"
proof (intro conjI)
  show "issued w (snd (S3Service_listObjects client None token w)) =
     [ListObjectsV2Command \<lparr>Bucket = bucketName, RequestPayer = Some ''requester'',
        Prefix = Some ''collection02/'', ContinuationToken = token\<rparr>]"
    using issued_append [OF listObjects_requests, of w client None token] by simp
  show "issued w (snd (GET_list client None token w)) =
     [ListObjectsV2Command \<lparr>Bucket = bucketName, RequestPayer = Some ''requester'',
        Prefix = Some ''collection02/'', ContinuationToken = token\<rparr>]"
    using issued_append [OF controller_listObjects_requests, of w client None token]
    by (simp add: issued_def GET_list_requests)
  show "GET_list client None token w = GET_list client (Some ''collection02/'') token w"
    by (simp add: GET_list_def S3Controller_listObjects_def)
  show "\<exists>input p. issued w (snd (S3Service_listObjects client prefix token w)) =
                   [ListObjectsV2Command input] \<and> Prefix input = Some p"
    using issued_append [OF listObjects_requests, of w client prefix token] by simp
  show "\<exists>input p. issued w (snd (GET_list client prefix token w)) =
                   [ListObjectsV2Command input] \<and> Prefix input = Some p"
    using issued_append [OF controller_listObjects_requests, of w client prefix token]
    by (simp add: issued_def GET_list_requests)
qed

section \<open>Requests and decoding\<close>

text \<open>
  Claim C8: the listing operation, the buffered fetch and the streaming fetch (and the
  decoding fetch, which goes through the buffered one) each send exactly one command to
  the provider, and it carries the requester-pays indicator.
\<close>

theorem storage_requests_requester_pays:
  "length (issued w (snd (S3Service_listObjects client prefix token w))) = 1
   \<and> list_all requester_pays (issued w (snd (S3Service_listObjects client prefix token w)))
   \<and> length (issued w (snd (S3Service_getObject client key w))) = 1
   \<and> list_all requester_pays (issued w (snd (S3Service_getObject client key w)))
   \<and> length (issued w (snd (S3Service_getGeoTIFFStream client key w))) = 1
   \<and> list_all requester_pays (issued w (snd (S3Service_getGeoTIFFStream client key w)))
   \<and> length (issued w (snd (S3Service_getGeoTIFF client lib key w))) = 1
   \<and> list_all requester_pays (issued w (snd (S3Service_getGeoTIFF client lib key w)))"
  using issued_append [OF listObjects_requests, of w client prefix token]
    issued_append [OF getObject_requests, of w client key]
    issued_append [OF getGeoTIFFStream_requests, of w client key]
    issued_append [OF getGeoTIFF_requests, of w client lib key]
  by simp

text \<open>
  Claim C6: \<^verbatim>\<open>getGeoTIFF\<close> sends what \<^verbatim>\<open>getObject\<close> sends; when that fetch fails
  the decoder is not invoked; when it gives a buffer the decoder is invoked once, on that
  buffer, and if the decoder finds images and the bands of the first one can be read,
  the result is those bands with the width and height of that first image. The streaming
  operation, and the route over it, never invoke the decoder.
\<close>

theorem getGeoTIFF_fetch_then_decode:
  "issued w (snd (S3Service_getGeoTIFF client lib key w))
     = issued w (snd (S3Service_getObject client key w))
   \<and> (fst (S3Service_getObject client key w) = Inl e \<longrightarrow>
        decoded (snd (S3Service_getGeoTIFF client lib key w)) = decoded w
      \<and> fst (S3Service_getGeoTIFF client lib key w) = Inl (Error ''Could not retrieve GeoTIFF data''))
   \<and> (fst (S3Service_getObject client key w) = Inr buffer \<longrightarrow>
        decoded (snd (S3Service_getGeoTIFF client lib key w)) = decoded w @ [buffer])
   \<and> (fst (S3Service_getObject client key w) = Inr buffer
        \<and> lib buffer = Inr (img # rest) \<and> readRasters img = Inr rasters \<longrightarrow>
        fst (S3Service_getGeoTIFF client lib key w) =
          Inr \<lparr>rasterData = rasters, width = getWidth img, height = getHeight img\<rparr>)
   \<and> decoded (snd (S3Service_getGeoTIFFStream client key w)) = decoded w
   \<and> decoded (snd (GET_get_geotiff_stream client key w)) = decoded w"
proof (intro conjI impI)
  show "issued w (snd (S3Service_getGeoTIFF client lib key w))
     = issued w (snd (S3Service_getObject client key w))"
    by (simp add: issued_def getGeoTIFF_requests getObject_requests)
next
  assume "fst (S3Service_getObject client key w) = Inl e"
  then show "decoded (snd (S3Service_getGeoTIFF client lib key w)) = decoded w"
    by (simp add: getGeoTIFF_decoded)
next
  assume "fst (S3Service_getObject client key w) = Inl e"
  then show "fst (S3Service_getGeoTIFF client lib key w) = Inl (Error ''Could not retrieve GeoTIFF data'')"
    by (simp add: getGeoTIFF_result)
next
  assume "fst (S3Service_getObject client key w) = Inr buffer"
  then show "decoded (snd (S3Service_getGeoTIFF client lib key w)) = decoded w @ [buffer]"
    by (simp add: getGeoTIFF_decoded)
next
  assume "fst (S3Service_getObject client key w) = Inr buffer
        \<and> lib buffer = Inr (img # rest) \<and> readRasters img = Inr rasters"
  then show "fst (S3Service_getGeoTIFF client lib key w) =
          Inr \<lparr>rasterData = rasters, width = getWidth img, height = getHeight img\<rparr>"
    by (simp add: getGeoTIFF_result)
next
  show "decoded (snd (S3Service_getGeoTIFFStream client key w)) = decoded w"
    by (rule getGeoTIFFStream_decoded)
next
  show "decoded (snd (GET_get_geotiff_stream client key w)) = decoded w"
    by (rule GET_get_geotiff_stream_decoded)
qed

text \<open>
  Claim C6 at an object whose container holds two images, and at a missing object.
\<close>

theorem getGeoTIFF_fetch_then_decode_witness:
  "fst (S3Service_getObject serving_client ''collection02/a.tif'' quiet) = Inr tif_bytes
   \<and> two_image_lib tif_bytes =
       Inr (\<lparr>readRasters = Inr [[7, 8]], getWidth = 2, getHeight = 1\<rparr>
            # [\<lparr>readRasters = Inr [[9]], getWidth = 1, getHeight = 1\<rparr>])
   \<and> decoded (snd (S3Service_getGeoTIFF serving_client two_image_lib ''collection02/a.tif'' quiet))
       = [tif_bytes]
   \<and> fst (S3Service_getGeoTIFF serving_client two_image_lib ''collection02/a.tif'' quiet) =
       Inr \<lparr>rasterData = [[7, 8]], width = 2, height = 1\<rparr>
   \<and> fst (S3Service_getObject denying_client ''collection02/foo.tif'' quiet)
       = Inl (StorageError ''The specified key does not exist.'')
   \<and> decoded (snd (S3Service_getGeoTIFF denying_client two_image_lib ''collection02/foo.tif'' quiet))
       = []
   \<and> fst (S3Service_getGeoTIFF denying_client two_image_lib ''collection02/foo.tif'' quiet)
       = Inl (Error ''Could not retrieve GeoTIFF data'')"
proof -
  have a: "fst (S3Service_getObject serving_client ''collection02/a.tif'' quiet) = Inr tif_bytes"
    by (rule getObject_serving)
  have b: "two_image_lib tif_bytes =
       Inr (\<lparr>readRasters = Inr [[7, 8]], getWidth = 2, getHeight = 1\<rparr>
            # [\<lparr>readRasters = Inr [[9]], getWidth = 1, getHeight = 1\<rparr>])"
    by (simp add: two_image_lib_def)
  have c: "fst (S3Service_getObject denying_client ''collection02/foo.tif'' quiet)
       = Inl (StorageError ''The specified key does not exist.'')"
    by (simp add: getObject_result denying_client_def)
  have d: "decoded quiet = []"
    by (simp add: quiet_def)
  show ?thesis
    using a b c d
      getGeoTIFF_fetch_then_decode [of quiet serving_client two_image_lib "''collection02/a.tif''"
        "StorageError ''The specified key does not exist.''" tif_bytes
        "\<lparr>readRasters = Inr [[7, 8]], getWidth = 2, getHeight = 1\<rparr>"
        "[\<lparr>readRasters = Inr [[9]], getWidth = 1, getHeight = 1\<rparr>]" "[[7, 8]]"]
      getGeoTIFF_fetch_then_decode [of quiet denying_client two_image_lib "''collection02/foo.tif''"
        "StorageError ''The specified key does not exist.''" tif_bytes
        "\<lparr>readRasters = Inr [[7, 8]], getWidth = 2, getHeight = 1\<rparr>"
        "[\<lparr>readRasters = Inr [[9]], getWidth = 1, getHeight = 1\<rparr>]" "[[7, 8]]"]
    by simp
qed

end
